theory Spec2Isabelle
  imports Main
begin

section \<open>The SMS webhook receiver\<close>

text \<open>
  A shallow embedding of the webhook handlers of the repository: \<open>handleSMS\<close> and
  \<open>saveSMS\<close> of \<^verbatim>\<open>main.go\<close>, the variant \<open>smsHandler\<close> that checks field lengths and
  converts its timestamp to UTC, and the table \<open>sms_messages\<close> of the SQL schema. (The
  repository has one more variant of \<open>handleSMS\<close>, without the fallback: like the one of
  \<^verbatim>\<open>main.go\<close> it checks no length and builds its record with \<^verbatim>\<open>time.Now()\<close>; it answers
  with the same XML as \<^verbatim>\<open>text/xml\<close>.)

  Strings are lists of bytes, as Go's \<^verbatim>\<open>string\<close> is, so \<open>length\<close> is Go's \<^verbatim>\<open>len\<close>.
  What the handlers take from their environment is explicit: the clock, whether the
  database driver reports an error, whether writing the response fails.
\<close>

subsection \<open>Errors\<close>

datatype error =
    EscapeError string    \<comment> \<open>\<^verbatim>\<open>url.EscapeError\<close>: a malformed percent escape, with the offending text\<close>
  | InvalidSemicolon      \<comment> \<open>"invalid semicolon separator in query"\<close>
  | DriverError string    \<comment> \<open>an error of the database driver or of the connection\<close>

subsection \<open>Go's \<^verbatim>\<open>net/url\<close>: parsing a query string\<close>

text \<open>
  \<^verbatim>\<open>url.ParseQuery\<close> as the standard library has it (Go 1.17 and later): the query is
  cut at every \<^verbatim>\<open>&\<close>, a segment holding a semicolon is an error, an empty segment is
  skipped, every other segment is cut at its first \<^verbatim>\<open>=\<close> and both halves are unescaped
  (\<^verbatim>\<open>+\<close> is a space, \<^verbatim>\<open>%XY\<close> is the byte with hexadecimal digits \<^verbatim>\<open>XY\<close>). The first
  error is kept and parsing goes on with the next segment.
\<close>

definition ishex :: "char \<Rightarrow> bool" where
  "ishex c = (let n = (of_char c :: nat) in
     (48 \<le> n \<and> n \<le> 57) \<or> (97 \<le> n \<and> n \<le> 102) \<or> (65 \<le> n \<and> n \<le> 70))"

definition unhex :: "char \<Rightarrow> nat" where
  "unhex c = (let n = (of_char c :: nat) in
     if 48 \<le> n \<and> n \<le> 57 then n - 48
     else if 97 \<le> n \<and> n \<le> 102 then n - 97 + 10
     else if 65 \<le> n \<and> n \<le> 70 then n - 65 + 10
     else 0)"

text \<open>The first loop of \<^verbatim>\<open>unescape\<close>: every \<^verbatim>\<open>%\<close> is followed by two hexadecimal digits.\<close>

fun unescape_check :: "string \<Rightarrow> error option" where
  "unescape_check [] = None"
| "unescape_check (c # s) =
    (if c = CHR ''%'' then
       (case s of
          h1 # h2 # rest \<Rightarrow>
            if ishex h1 \<and> ishex h2 then unescape_check rest
            else Some (EscapeError (take 3 (c # s)))
        | _ \<Rightarrow> Some (EscapeError (take 3 (c # s))))
     else unescape_check s)"

text \<open>
  The second loop of \<^verbatim>\<open>unescape\<close>, in the mode of a query component. It runs only on a
  string that passed the first loop, so the branch of a truncated escape is never taken.
\<close>

fun unescape_build :: "string \<Rightarrow> string" where
  "unescape_build [] = []"
| "unescape_build (c # s) =
    (if c = CHR ''%'' then
       (case s of
          h1 # h2 # rest \<Rightarrow> char_of (unhex h1 * 16 + unhex h2) # unescape_build rest
        | _ \<Rightarrow> [])
     else if c = CHR ''+'' then CHR '' '' # unescape_build s
     else c # unescape_build s)"

definition QueryUnescape :: "string \<Rightarrow> error + string" where
  "QueryUnescape s =
     (case unescape_check s of Some e \<Rightarrow> Inl e | None \<Rightarrow> Inr (unescape_build s))"

text \<open>\<^verbatim>\<open>strings.Cut\<close> with a separator of one byte: before, after, found.\<close>

fun Cut :: "string \<Rightarrow> char \<Rightarrow> string \<times> string \<times> bool" where
  "Cut [] sep = ([], [], False)"
| "Cut (c # s) sep =
    (if c = sep then ([], s, True)
     else (case Cut s sep of (before, after, found) \<Rightarrow> (c # before, after, found)))"

lemma Cut_after_le: "length (fst (snd (Cut s sep))) \<le> length s"
  by (induction s) (auto split: prod.splits)

lemma Cut_after_less:
  assumes "s \<noteq> []" and "Cut s sep = (key, rest, found)"
  shows "length rest < length s"
proof (cases s)
  case Nil
  with assms show ?thesis by simp
next
  case (Cons c t)
  have "length (fst (snd (Cut t sep))) \<le> length t" by (rule Cut_after_le)
  with assms Cons show ?thesis by (auto split: if_splits prod.splits)
qed

text \<open>\<^verbatim>\<open>url.Values\<close> is \<^verbatim>\<open>map[string][]string\<close>.\<close>

type_synonym Values = "string \<rightharpoonup> string list"

function parseQuery :: "Values \<Rightarrow> error option \<Rightarrow> string \<Rightarrow> Values \<times> error option" where
  "parseQuery m err query =
    (if query = [] then (m, err)
     else (case Cut query CHR ''&'' of (key, rest, _) \<Rightarrow>
       if CHR '';'' \<in> set key then parseQuery m (Some InvalidSemicolon) rest
       else if key = [] then parseQuery m err rest
       else (case Cut key CHR ''='' of (k, v, _) \<Rightarrow>
         (case QueryUnescape k of
            Inl err1 \<Rightarrow> parseQuery m (if err = None then Some err1 else err) rest
          | Inr k' \<Rightarrow>
             (case QueryUnescape v of
                Inl err1 \<Rightarrow> parseQuery m (if err = None then Some err1 else err) rest
              | Inr v' \<Rightarrow>
                  parseQuery (m(k' \<mapsto> (case m k' of None \<Rightarrow> [] | Some vs \<Rightarrow> vs) @ [v']))
                    err rest)))))"
  by pat_completeness auto
termination
proof (relation "measure (\<lambda>(m, err, query). length query)")
qed (auto intro: Cut_after_less [OF _ sym])

declare parseQuery.simps [simp del]

definition ParseQuery :: "string \<Rightarrow> Values \<times> error option" where
  "ParseQuery query = parseQuery Map.empty None query"

text \<open>\<^verbatim>\<open>Values.Get\<close>: the first value of the key, the empty string when there is none.\<close>

definition Get :: "Values \<Rightarrow> string \<Rightarrow> string" where
  "Get v key = (case v key of None \<Rightarrow> [] | Some [] \<Rightarrow> [] | Some (x # _) \<Rightarrow> x)"

definition TrimPrefix :: "string \<Rightarrow> string \<Rightarrow> string" where
  "TrimPrefix s p = (if take (length p) s = p then drop (length p) s else s)"

subsection \<open>Go's \<^verbatim>\<open>net/http\<close>: the request and the response\<close>

text \<open>
  The router hands the handlers \<^verbatim>\<open>POST /sms\<close> only. A request is its body, of content type
  \<^verbatim>\<open>application/x-www-form-urlencoded\<close>, with no query string in the URL and below the
  form size limit of \<^verbatim>\<open>net/http\<close>: then \<^verbatim>\<open>r.ParseForm()\<close> fills \<^verbatim>\<open>r.PostForm\<close> with
  the parsed body and returns the parser's error, and \<^verbatim>\<open>r.PostFormValue(key)\<close> is the
  first value of the key in \<^verbatim>\<open>r.PostForm\<close>.
\<close>

record Request =
  PostBody :: string

definition ParseForm :: "Request \<Rightarrow> Values \<times> error option" where
  "ParseForm r = ParseQuery (PostBody r)"

definition PostFormValue :: "Values \<Rightarrow> string \<Rightarrow> string" where
  "PostFormValue PostForm key = Get PostForm key"

text \<open>What a handler wrote to its \<^verbatim>\<open>http.ResponseWriter\<close>.\<close>

record Response =
  status :: nat
  header :: "(string \<times> string) list"
  written :: string

definition StatusOK :: nat where
  "StatusOK = 200"

definition StatusBadRequest :: nat where
  "StatusBadRequest = 400"

definition StatusInternalServerError :: nat where
  "StatusInternalServerError = 500"

text \<open>\<^verbatim>\<open>http.Error\<close>: a plain-text reply, the message followed by a newline.\<close>

definition http_Error :: "string \<Rightarrow> nat \<Rightarrow> Response" where
  "http_Error msg code =
     \<lparr>status = code,
      header = [(''Content-Type'', ''text/plain; charset=utf-8''),
                (''X-Content-Type-Options'', ''nosniff'')],
      written = msg @ [CHR 0x0A]\<rparr>"

subsection \<open>The log\<close>

text \<open>
  A log line is its text; an error formatted with \<^verbatim>\<open>%v\<close> stays the error itself, since
  its rendering belongs to the library that made it.
\<close>

datatype piece = Lit string | ErrText error

type_synonym message = "piece list"

definition logError :: "string \<Rightarrow> message \<Rightarrow> message" where
  "logError errorType msg = Lit (''['' @ errorType @ ''] '') # msg"

subsection \<open>Time\<close>

text \<open>
  A \<^verbatim>\<open>time.Time\<close> is an instant with a location. \<^verbatim>\<open>time.Now()\<close> reads the clock and
  returns the local time; \<^verbatim>\<open>t.UTC()\<close> is the same instant with the location set to UTC.
\<close>

datatype Location = Local | UTC

record Time =
  instant :: int
  loc :: Location

record Env =
  clock :: int
  write_err :: "error option"

definition time_Now :: "Env \<Rightarrow> Time" where
  "time_Now env = \<lparr>instant = clock env, loc = Local\<rparr>"

definition Time_UTC :: "Time \<Rightarrow> Time" where
  "Time_UTC t = t\<lparr>loc := UTC\<rparr>"

subsection \<open>The table \<open>sms_messages\<close> and the driver\<close>

text \<open>
  The schema: \<^verbatim>\<open>id BIGINT AUTO_INCREMENT PRIMARY KEY\<close>, \<^verbatim>\<open>message_sid\<close>, \<^verbatim>\<open>from_number\<close>,
  \<^verbatim>\<open>body\<close> (the field \<open>body_text\<close> here), \<^verbatim>\<open>received_at\<close>. No column but \<^verbatim>\<open>id\<close> is unique.
  The widths of the columns (\<^verbatim>\<open>VARCHAR(50)\<close>, \<^verbatim>\<open>VARCHAR(15)\<close>, \<^verbatim>\<open>TEXT\<close>) are the server's to
  enforce: a value it refuses is a statement that fails.
\<close>

record Row =
  row_id :: nat
  message_sid :: string
  from_number :: string
  body_text :: string
  received_at :: Time

text \<open>The four arguments of the insert, as the caller hands them to \<^verbatim>\<open>db.Exec\<close>.\<close>

record ExecArgs =
  sid_arg :: string
  sender_arg :: string
  text_arg :: string
  time_arg :: Time

text \<open>
  The database: the rows of the table in the order of their insertion, the next value of
  the \<^verbatim>\<open>AUTO_INCREMENT\<close> counter, the number of statements executed so far, what the
  driver will answer to the statements to come (\<open>faults\<close>: an error for a statement that
  fails, \<open>None\<close> for one that succeeds; every statement succeeds once the list is used up),
  and the arguments of the statements executed so far, as they were passed (\<open>passed\<close>).
\<close>

record DB =
  rows :: "Row list"
  auto_increment :: nat
  execs :: nat
  faults :: "error option list"
  passed :: "ExecArgs list"

text \<open>
  \<^verbatim>\<open>db.Exec\<close> of \<^verbatim>\<open>INSERT INTO sms_messages (message_sid, from_number, body, received_at)
  VALUES (?, ?, ?, ?)\<close>. A statement that reports an error has inserted nothing.

  The driver sends a \<^verbatim>\<open>time.Time\<close> argument converted to the location of its
  configuration. The data source names of the handlers set no \<^verbatim>\<open>loc\<close>, so that location is
  the driver's default, UTC: whatever the location of the argument, the row holds its
  instant as a time in UTC.
\<close>

definition Exec_insert :: "DB \<Rightarrow> string \<Rightarrow> string \<Rightarrow> string \<Rightarrow> Time \<Rightarrow> DB \<times> error option" where
  "Exec_insert db sid sender txt t =
    (let fault = (case faults db of [] \<Rightarrow> None | f # _ \<Rightarrow> f);
         db1 = db\<lparr>execs := Suc (execs db), faults := tl (faults db),
                  passed := passed db @
                    [\<lparr>sid_arg = sid, sender_arg = sender, text_arg = txt, time_arg = t\<rparr>]\<rparr>
     in case fault of
          Some err \<Rightarrow> (db1, Some err)
        | None \<Rightarrow>
            (db1\<lparr>rows := rows db @
                     [\<lparr>row_id = auto_increment db, message_sid = sid, from_number = sender,
                       body_text = txt, received_at = Time_UTC t\<rparr>],
                  auto_increment := Suc (auto_increment db)\<rparr>,
             None))"

subsection \<open>\<^verbatim>\<open>main.go\<close>: \<open>handleSMS\<close> and \<open>saveSMS\<close>\<close>

record SMSMessage =
  MessageSID :: string
  FromNumber :: string
  Body :: string
  ReceivedAt :: Time

definition saveSMS :: "DB \<Rightarrow> SMSMessage \<Rightarrow> DB \<times> error option" where
  "saveSMS db sms =
     Exec_insert db (MessageSID sms) (FromNumber sms) (Body sms) (ReceivedAt sms)"

text \<open>
  The direct form fields, each under its key and then under the lower-case key
  (\<^verbatim>\<open>main.go\<close>, lines 44 to 56).
\<close>

definition directFields :: "Values \<Rightarrow> string \<times> string \<times> string" where
  "directFields PostForm =
    (let messageSID = PostFormValue PostForm ''MessageSid'';
         messageSID = (if messageSID = [] then PostFormValue PostForm ''messagesid''
                       else messageSID);
         fromNumber = PostFormValue PostForm ''From'';
         fromNumber = (if fromNumber = [] then PostFormValue PostForm ''from''
                       else fromNumber);
         body = PostFormValue PostForm ''Body'';
         body = (if body = [] then PostFormValue PostForm ''body'' else body)
     in (messageSID, fromNumber, body))"

text \<open>
  The fallback (\<^verbatim>\<open>main.go\<close>, lines 58 to 90): when a field is empty and the form field
  \<^verbatim>\<open>body\<close> is not, \<^verbatim>\<open>body\<close> without one leading \<^verbatim>\<open>?\<close> is parsed as a query string, and the
  fields still empty are read from it. \<open>Inl\<close> is the error of that parse.
\<close>

definition fallbackFields ::
  "Values \<Rightarrow> string \<times> string \<times> string \<Rightarrow> error + string \<times> string \<times> string" where
  "fallbackFields PostForm direct =
    (case direct of (messageSID, fromNumber, body) \<Rightarrow>
      if messageSID = [] \<or> fromNumber = [] \<or> body = [] then
        (let bodyParam = PostFormValue PostForm ''body'' in
         if bodyParam \<noteq> [] then
           (let bodyParam = TrimPrefix bodyParam ''?'' in
            case ParseQuery bodyParam of
              (parsed, Some err) \<Rightarrow> Inl err
            | (parsed, None) \<Rightarrow>
                (let messageSID =
                       (if messageSID = [] then
                          (let v = Get parsed ''MessageSid'' in
                           if v = [] then Get parsed ''messagesid'' else v)
                        else messageSID);
                     fromNumber =
                       (if fromNumber = [] then
                          (let v = Get parsed ''From'' in
                           if v = [] then Get parsed ''from'' else v)
                        else fromNumber);
                     body =
                       (if body = [] then
                          (let v = Get parsed ''Body'' in
                           if v = [] then Get parsed ''body'' else v)
                        else body)
                 in Inr (messageSID, fromNumber, body)))
         else Inr direct)
      else Inr direct)"

definition twimlResponse :: string where
  \<open>twimlResponse =
     ''<?xml version="1.0" encoding="UTF-8"?>'' @ [CHR 0x0A] @
     ''<Response>'' @ [CHR 0x0A] @
     ''    <Message>Message received! Thank you.</Message>'' @ [CHR 0x0A] @
     ''</Response>''\<close>

text \<open>
  The handler: the response it wrote, the lines it logged, and the database afterwards.
\<close>

definition handleSMS :: "Request \<Rightarrow> Env \<Rightarrow> DB \<Rightarrow> Response \<times> message list \<times> DB" where
  "handleSMS r env db =
    (case ParseForm r of
       (PostForm, Some err) \<Rightarrow>
         (http_Error ''Invalid form data'' StatusBadRequest,
          [logError ''WEBHOOK_INVALID_FORM''
             [Lit ''Failed to parse form data: '', ErrText err]],
          db)
     | (PostForm, None) \<Rightarrow>
         (case fallbackFields PostForm (directFields PostForm) of
            Inl err \<Rightarrow>
              (http_Error ''Invalid body parameter'' StatusBadRequest,
               [logError ''WEBHOOK_INVALID_BODY''
                  [Lit ''Failed to parse body parameter: '', ErrText err]],
               db)
          | Inr (messageSID, fromNumber, body) \<Rightarrow>
              if messageSID = [] \<or> fromNumber = [] \<or> body = [] then
                (http_Error ''Missing required fields'' StatusBadRequest,
                 [logError ''WEBHOOK_NO_INPUT''
                    [Lit (''Missing required fields: MessageSid='' @ messageSID @
                          '', From='' @ fromNumber @ '', Body='' @ body)]],
                 db)
              else
                (let sms = \<lparr>MessageSID = messageSID, FromNumber = fromNumber, Body = body,
                            ReceivedAt = time_Now env\<rparr>
                 in case saveSMS db sms of
                      (db', Some err) \<Rightarrow>
                        (http_Error ''Failed to save message'' StatusInternalServerError,
                         [logError ''DB_SAVE_ERROR''
                            [Lit ''Failed to save SMS to database: '', ErrText err]],
                         db')
                    | (db', None) \<Rightarrow>
                        (\<lparr>status = StatusOK,
                          header = [(''Content-Type'', ''application/xml'')],
                          written = twimlResponse\<rparr>,
                         [Lit (''Saved SMS from '' @ fromNumber @ '': '' @ body)] #
                         (case write_err env of
                            None \<Rightarrow> []
                          | Some werr \<Rightarrow>
                              [logError ''WEBHOOK_RESPONSE_ERROR''
                                 [Lit ''Error writing TwiML response: '', ErrText werr]]),
                         db'))))"

subsection \<open>The variant \<open>smsHandler\<close>\<close>

text \<open>
  The handler of the variant that reads the three keys as they are, limits the lengths of
  the fields, converts its timestamp to UTC and logs nothing.
\<close>

definition smsHandler :: "Request \<Rightarrow> Env \<Rightarrow> DB \<Rightarrow> Response \<times> DB" where
  "smsHandler r env db =
    (case ParseForm r of
       (PostForm, Some err) \<Rightarrow> (http_Error ''Invalid form data'' StatusBadRequest, db)
     | (PostForm, None) \<Rightarrow>
         (let sender = PostFormValue PostForm ''From'';
              body = PostFormValue PostForm ''Body'';
              messageSid = PostFormValue PostForm ''MessageSid''
          in if sender = [] \<or> body = [] \<or> messageSid = [] then
               (http_Error ''Missing required fields'' StatusBadRequest, db)
             else if length body > 1600 \<or> length sender > 15 \<or> length messageSid > 50 then
               (http_Error ''Input length exceeded'' StatusBadRequest, db)
             else
               (let timestamp = Time_UTC (time_Now env) in
                case Exec_insert db messageSid sender body timestamp of
                  (db', Some err) \<Rightarrow>
                    (http_Error ''Internal server error'' StatusInternalServerError, db')
                | (db', None) \<Rightarrow>
                    (\<lparr>status = StatusOK, header = [],
                      written = ''Message stored successfully''\<rparr>,
                     db'))))"

subsection \<open>Notions of the specification\<close>

text \<open>
  The three fields after both extraction passes of \<open>handleSMS\<close>; \<open>None\<close> when the form or
  the nested \<^verbatim>\<open>body\<close> did not parse.
\<close>

definition extractFields :: "Request \<Rightarrow> (string \<times> string \<times> string) option" where
  "extractFields r =
    (case ParseForm r of
       (PostForm, Some err) \<Rightarrow> None
     | (PostForm, None) \<Rightarrow>
         (case fallbackFields PostForm (directFields PostForm) of
            Inl err \<Rightarrow> None
          | Inr triple \<Rightarrow> Some triple))"

text \<open>The required fields are all there.\<close>

definition complete :: "string \<times> string \<times> string \<Rightarrow> bool" where
  "complete triple =
     (case triple of (messageSID, fromNumber, body) \<Rightarrow>
        messageSID \<noteq> [] \<and> fromNumber \<noteq> [] \<and> body \<noteq> [])"

text \<open>The next statement will succeed.\<close>

definition accepting :: "DB \<Rightarrow> bool" where
  "accepting db = (case faults db of [] \<Rightarrow> True | f # _ \<Rightarrow> f = None)"

text \<open>The columns of a row that come from the request.\<close>

definition stored :: "Row \<Rightarrow> string \<times> string \<times> string" where
  "stored row = (message_sid row, from_number row, body_text row)"

definition emptyDB :: DB where
  "emptyDB = \<lparr>rows = [], auto_increment = 1, execs = 0, faults = [], passed = []\<rparr>"

text \<open>A request passes validation in \<open>handleSMS\<close>: both parses succeed and no field is empty.\<close>

definition validated :: "Request \<Rightarrow> bool" where
  "validated r = (case extractFields r of None \<Rightarrow> False | Some triple \<Rightarrow> complete triple)"

text \<open>The rows a run added to the table.\<close>

definition added :: "DB \<Rightarrow> DB \<Rightarrow> Row list" where
  "added db db' = drop (length (rows db)) (rows db')"

text \<open>
  The three fields as \<open>smsHandler\<close> reads them (message identifier, sender, body); \<open>None\<close>
  when the form did not parse.
\<close>

definition smsFields :: "Request \<Rightarrow> (string \<times> string \<times> string) option" where
  "smsFields r =
    (case ParseForm r of
       (PostForm, Some err) \<Rightarrow> None
     | (PostForm, None) \<Rightarrow>
         Some (PostFormValue PostForm ''MessageSid'', PostFormValue PostForm ''From'',
               PostFormValue PostForm ''Body''))"

text \<open>A field is longer than its limit, in bytes.\<close>

definition oversized :: "string \<times> string \<times> string \<Rightarrow> bool" where
  "oversized triple =
     (case triple of (messageSid, sender, body) \<Rightarrow>
        length messageSid > 50 \<or> length sender > 15 \<or> length body > 1600)"

text \<open>
  A text brought to one line: every line break is dropped, with the indentation of the
  line it opens.
\<close>

fun flatten :: "bool \<Rightarrow> string \<Rightarrow> string" where
  "flatten at_start [] = []"
| "flatten at_start (c # s) =
    (if c = CHR 0x0A then flatten True s
     else if at_start \<and> c = CHR '' '' then flatten True s
     else c # flatten False s)"

definition one_line :: "string \<Rightarrow> string" where
  "one_line s = flatten False s"

text \<open>The response of \<open>handleSMS\<close> and the database after it.\<close>

definition reply :: "Request \<Rightarrow> Env \<Rightarrow> DB \<Rightarrow> Response" where
  "reply r env db = fst (handleSMS r env db)"

definition db_after :: "Request \<Rightarrow> Env \<Rightarrow> DB \<Rightarrow> DB" where
  "db_after r env db = snd (snd (handleSMS r env db))"

section \<open>Evaluation\<close>

lemmas url_eval =
  QueryUnescape_def ishex_def unhex_def char_of_def bit_0 ParseQuery_def parseQuery.simps
  Get_def TrimPrefix_def

lemmas handler_eval =
  ParseForm_def PostFormValue_def directFields_def fallbackFields_def extractFields_def
  complete_def validated_def saveSMS_def Exec_insert_def time_Now_def Time_UTC_def
  http_Error_def StatusOK_def StatusBadRequest_def StatusInternalServerError_def
  logError_def stored_def emptyDB_def accepting_def added_def smsFields_def oversized_def
  reply_def db_after_def one_line_def

section \<open>The handler by cases\<close>

lemma saveSMS_accepting:
  assumes "accepting db"
  shows "saveSMS db sms =
    (db\<lparr>execs := Suc (execs db), faults := tl (faults db),
        passed := passed db @
          [\<lparr>sid_arg = MessageSID sms, sender_arg = FromNumber sms, text_arg = Body sms,
            time_arg = ReceivedAt sms\<rparr>],
        rows := rows db @
          [\<lparr>row_id = auto_increment db, message_sid = MessageSID sms,
            from_number = FromNumber sms, body_text = Body sms,
            received_at = Time_UTC (ReceivedAt sms)\<rparr>],
        auto_increment := Suc (auto_increment db)\<rparr>, None)"
  using assms
  by (simp add: saveSMS_def Exec_insert_def accepting_def Let_def split: list.splits)

lemma saveSMS_failing:
  assumes "faults db = Some err # later"
  shows "saveSMS db sms =
    (db\<lparr>execs := Suc (execs db), faults := later,
        passed := passed db @
          [\<lparr>sid_arg = MessageSID sms, sender_arg = FromNumber sms, text_arg = Body sms,
            time_arg = ReceivedAt sms\<rparr>]\<rparr>, Some err)"
  using assms by (simp add: saveSMS_def Exec_insert_def Let_def)

lemma not_accepting:
  "\<not> accepting db \<Longrightarrow> \<exists>err later. faults db = Some err # later"
  by (auto simp: accepting_def split: list.splits)

lemma fallbackFields_complete:
  "complete triple \<Longrightarrow> fallbackFields PostForm triple = Inr triple"
  by (cases triple) (simp add: fallbackFields_def complete_def)

text \<open>A request that passes validation: the handler saves the record and answers by the result.\<close>

lemma handleSMS_complete:
  assumes "extractFields r = Some (messageSID, fromNumber, body)"
    and "complete (messageSID, fromNumber, body)"
  shows "handleSMS r env db =
    (case saveSMS db \<lparr>MessageSID = messageSID, FromNumber = fromNumber, Body = body,
                        ReceivedAt = time_Now env\<rparr> of
       (db', Some err) \<Rightarrow>
         (http_Error ''Failed to save message'' StatusInternalServerError,
          [logError ''DB_SAVE_ERROR''
             [Lit ''Failed to save SMS to database: '', ErrText err]],
          db')
     | (db', None) \<Rightarrow>
         (\<lparr>status = StatusOK,
           header = [(''Content-Type'', ''application/xml'')],
           written = twimlResponse\<rparr>,
          [Lit (''Saved SMS from '' @ fromNumber @ '': '' @ body)] #
          (case write_err env of
             None \<Rightarrow> []
           | Some werr \<Rightarrow>
               [logError ''WEBHOOK_RESPONSE_ERROR''
                  [Lit ''Error writing TwiML response: '', ErrText werr]]),
          db'))"
proof -
  obtain PostForm where p: "ParseForm r = (PostForm, None)"
    using assms(1) by (auto simp: extractFields_def split: prod.splits option.splits)
  with assms(1) have f: "fallbackFields PostForm (directFields PostForm) =
      Inr (messageSID, fromNumber, body)"
    by (simp add: extractFields_def split: sum.splits)
  from assms(2) have n: "messageSID \<noteq> []" "fromNumber \<noteq> []" "body \<noteq> []"
    by (simp_all add: complete_def)
  obtain db' e
    where s: "saveSMS db \<lparr>MessageSID = messageSID, FromNumber = fromNumber, Body = body,
                           ReceivedAt = time_Now env\<rparr> = (db', e)"
    by (cases "saveSMS db \<lparr>MessageSID = messageSID, FromNumber = fromNumber, Body = body,
                           ReceivedAt = time_Now env\<rparr>")
  show ?thesis
  proof (cases e)
    case None
    with p f n s show ?thesis by (simp add: handleSMS_def)
  next
    case (Some err)
    with p f n s show ?thesis by (simp add: handleSMS_def)
  qed
qed

text \<open>A request that does not: one of the three error exits, whatever the clock and the database.\<close>

lemma handleSMS_rejected:
  assumes "\<not> validated r"
  shows "db_after r env db = db"
    and "reply r env db = reply r env' db'"
    and "status (reply r env db) = 400"
proof -
  obtain PostForm e where p: "ParseForm r = (PostForm, e)"
    by (cases "ParseForm r")
  have "db_after r env db = db \<and> reply r env db = reply r env' db' \<and>
        status (reply r env db) = 400"
  proof (cases e)
    case (Some err)
    with p show ?thesis
      by (simp add: handleSMS_def db_after_def reply_def http_Error_def StatusBadRequest_def)
  next
    case None
    show ?thesis
    proof (cases "fallbackFields PostForm (directFields PostForm)")
      case (Inl err)
      with p None show ?thesis
        by (simp add: handleSMS_def db_after_def reply_def http_Error_def StatusBadRequest_def)
    next
      case (Inr triple)
      obtain a b c where t: "triple = (a, b, c)" by (cases triple) auto
      have "a = [] \<or> b = [] \<or> c = []"
        using assms p None Inr t
        by (auto simp: validated_def extractFields_def complete_def)
      with p None Inr t show ?thesis
        by (simp add: handleSMS_def db_after_def reply_def http_Error_def StatusBadRequest_def)
    qed
  qed
  then show "db_after r env db = db" and "reply r env db = reply r env' db'"
    and "status (reply r env db) = 400"
    by blast+
qed

lemma validatedE:
  assumes "validated r"
  obtains messageSID fromNumber body
  where "extractFields r = Some (messageSID, fromNumber, body)"
    and "complete (messageSID, fromNumber, body)"
  using assms by (auto simp: validated_def split: option.splits)

text \<open>
  The fallback never changes the body text: when the form field \<^verbatim>\<open>body\<close> is not empty,
  the direct pass has already taken it (or \<^verbatim>\<open>Body\<close>) as the body text, so the last branch
  of the fallback (\<^verbatim>\<open>main.go\<close>, lines 83 to 88) is never taken.
\<close>

lemma fallbackFields_body:
  assumes "fallbackFields PostForm (directFields PostForm) = Inr (messageSID, fromNumber, body)"
  shows "body = snd (snd (directFields PostForm))"
proof (cases "PostFormValue PostForm ''body'' = []")
  case True
  then have "fallbackFields PostForm (directFields PostForm) = Inr (directFields PostForm)"
    by (simp add: fallbackFields_def Let_def split: prod.splits)
  with assms show ?thesis by simp
next
  case False
  then have "snd (snd (directFields PostForm)) \<noteq> []"
    by (simp add: directFields_def Let_def)
  with assms show ?thesis
    by (cases "directFields PostForm")
       (auto simp: fallbackFields_def Let_def split: if_splits prod.splits option.splits)
qed

section \<open>The claims\<close>

text \<open>
  \<^bold>\<open>C1.\<close> A request whose only form field is the lower-case \<^verbatim>\<open>body\<close>, holding the other
  fields as a nested query string, is said to store the same record as the request with
  the three fields given directly. At the request of the specification's own example,
  \<^verbatim>\<open>body=%3FMessageSid%3DSM9%26From%3D%2B1555%26Body%3DHi\<close>, the handler answers 200 but
  stores the whole nested string as the body text and a sender number that starts with a
  space; the direct request stores \<^verbatim>\<open>+1555\<close> and \<^verbatim>\<open>Hi\<close>.
\<close>

theorem nested_body_stored_raw:
  "status (reply \<lparr>PostBody = ''body=%3FMessageSid%3DSM9%26From%3D%2B1555%26Body%3DHi''\<rparr>
             env emptyDB) = 200 \<and>
   map stored (rows (db_after
      \<lparr>PostBody = ''body=%3FMessageSid%3DSM9%26From%3D%2B1555%26Body%3DHi''\<rparr>
      env emptyDB)) =
     [(''SM9'', '' 1555'', ''?MessageSid=SM9&From=+1555&Body=Hi'')] \<and>
   map stored (rows (db_after \<lparr>PostBody = ''MessageSid=SM9&From=%2B1555&Body=Hi''\<rparr>
      env emptyDB)) =
     [(''SM9'', ''+1555'', ''Hi'')]"
  by (simp add: handleSMS_def handler_eval url_eval)

text \<open>
  \<^bold>\<open>C2.\<close> For every request, the handler executes the insert into \<^verbatim>\<open>sms_messages\<close> if and
  only if both parses succeeded and the three fields are non-empty after both extraction
  passes: exactly once then, and not at all otherwise. On every error exit the database is
  as it was. When the driver accepts the statement, a row is added exactly for the
  requests that pass validation; and a row that is added holds the three extracted
  fields, none of them empty.
\<close>

theorem handleSMS_writes_iff_validated:
  "(execs (db_after r env db) = Suc (execs db)) = validated r \<and>
   (execs (db_after r env db) = execs db) = (\<not> validated r) \<and>
   (\<not> validated r \<longrightarrow> db_after r env db = db) \<and>
   (accepting db \<longrightarrow> (rows (db_after r env db) \<noteq> rows db) = validated r) \<and>
   (rows (db_after r env db) = rows db \<or>
    (\<exists>row. rows (db_after r env db) = rows db @ [row] \<and> complete (stored row) \<and>
           extractFields r = Some (stored row)))"
proof (cases "validated r")
  case False
  then have "db_after r env db = db" by (rule handleSMS_rejected)
  with False show ?thesis by simp
next
  case True
  then obtain messageSID fromNumber body
    where e: "extractFields r = Some (messageSID, fromNumber, body)"
      and c: "complete (messageSID, fromNumber, body)"
    by (rule validatedE)
  show ?thesis
  proof (cases "accepting db")
    case acc: True
    show ?thesis
      using True e c acc
      by (simp add: db_after_def handleSMS_complete [OF e c] saveSMS_accepting [OF acc]
            stored_def)
  next
    case False
    then obtain err later where f: "faults db = Some err # later"
      using not_accepting by blast
    show ?thesis
      using True False
      by (simp add: db_after_def handleSMS_complete [OF e c] saveSMS_failing [OF f])
  qed
qed

theorem handleSMS_writes_iff_validated_witness:
  "validated \<lparr>PostBody = ''MessageSid=SM123&From=%2B15551234567&Body=Hello''\<rparr> \<and>
   accepting emptyDB \<and>
   execs (db_after \<lparr>PostBody = ''MessageSid=SM123&From=%2B15551234567&Body=Hello''\<rparr>
            \<lparr>clock = 1700000000, write_err = None\<rparr> emptyDB) = 1 \<and>
   map stored (rows (db_after
      \<lparr>PostBody = ''MessageSid=SM123&From=%2B15551234567&Body=Hello''\<rparr>
      \<lparr>clock = 1700000000, write_err = None\<rparr> emptyDB)) =
     [(''SM123'', ''+15551234567'', ''Hello'')] \<and>
   \<not> validated \<lparr>PostBody = ''MessageSid=SM123&Body=Hello''\<rparr> \<and>
   db_after \<lparr>PostBody = ''MessageSid=SM123&Body=Hello''\<rparr>
      \<lparr>clock = 1700000000, write_err = None\<rparr> emptyDB = emptyDB"
  using
    handleSMS_writes_iff_validated
      [of "\<lparr>PostBody = ''MessageSid=SM123&From=%2B15551234567&Body=Hello''\<rparr>"
          "\<lparr>clock = 1700000000, write_err = None\<rparr>" emptyDB]
    handleSMS_writes_iff_validated
      [of "\<lparr>PostBody = ''MessageSid=SM123&Body=Hello''\<rparr>"
          "\<lparr>clock = 1700000000, write_err = None\<rparr>" emptyDB]
  by (simp add: handleSMS_def handler_eval url_eval)

text \<open>
  \<^bold>\<open>C3.\<close> For every request in which one of the three fields is still empty after both
  extraction passes, the handler answers 400 with the text "Missing required fields",
  leaves the database as it was, and logs one line, tagged \<^verbatim>\<open>WEBHOOK_NO_INPUT\<close>, that shows
  the three fields: the missing ones are those shown empty.
\<close>

theorem handleSMS_missing_fields:
  assumes "extractFields r = Some (messageSID, fromNumber, body)"
    and "messageSID = [] \<or> fromNumber = [] \<or> body = []"
  shows "handleSMS r env db =
           (http_Error ''Missing required fields'' StatusBadRequest,
            [logError ''WEBHOOK_NO_INPUT''
               [Lit (''Missing required fields: MessageSid='' @ messageSID @
                     '', From='' @ fromNumber @ '', Body='' @ body)]],
            db) \<and>
         status (reply r env db) = 400"
proof -
  obtain PostForm where p: "ParseForm r = (PostForm, None)"
    using assms(1) by (auto simp: extractFields_def split: prod.splits option.splits)
  with assms(1) have f: "fallbackFields PostForm (directFields PostForm) =
      Inr (messageSID, fromNumber, body)"
    by (simp add: extractFields_def split: sum.splits)
  have "handleSMS r env db =
           (http_Error ''Missing required fields'' StatusBadRequest,
            [logError ''WEBHOOK_NO_INPUT''
               [Lit (''Missing required fields: MessageSid='' @ messageSID @
                     '', From='' @ fromNumber @ '', Body='' @ body)]],
            db)"
    using assms(2) by (simp add: handleSMS_def p f)
  then show ?thesis
    by (simp add: reply_def http_Error_def StatusBadRequest_def)
qed

theorem handleSMS_missing_fields_witness:
  "extractFields \<lparr>PostBody = ''MessageSid=SM123&Body=Hello''\<rparr> =
     Some (''SM123'', [], ''Hello'') \<and>
   handleSMS \<lparr>PostBody = ''MessageSid=SM123&Body=Hello''\<rparr>
     \<lparr>clock = 1700000000, write_err = None\<rparr> emptyDB =
     (http_Error ''Missing required fields'' StatusBadRequest,
      [[Lit ''[WEBHOOK_NO_INPUT] '',
        Lit ''Missing required fields: MessageSid=SM123, From=, Body=Hello'']],
      emptyDB) \<and>
   status (reply \<lparr>PostBody = ''MessageSid=SM123&Body=Hello''\<rparr>
     \<lparr>clock = 1700000000, write_err = None\<rparr> emptyDB) = 400"
  using handleSMS_missing_fields
      [of "\<lparr>PostBody = ''MessageSid=SM123&Body=Hello''\<rparr>" "''SM123''" "[]" "''Hello''"
          "\<lparr>clock = 1700000000, write_err = None\<rparr>" emptyDB]
  by (simp add: handler_eval url_eval)

text \<open>
  \<^bold>\<open>C4.\<close> For every request that passes validation and whose insert the driver answers
  with an error, the handler answers 500 with the fixed text "Failed to save message",
  whatever the error, logs one line, tagged \<^verbatim>\<open>DB_SAVE_ERROR\<close>, that ends with the error, and
  executes no further statement: the table is as it was, one statement has been executed,
  and the driver's answers to later statements are untouched, even when the next would
  succeed.
\<close>

theorem handleSMS_persistence_failure:
  assumes "validated r" and "faults db = Some err # later"
  shows "status (reply r env db) = 500 \<and>
         written (reply r env db) = ''Failed to save message'' @ [CHR 0x0A] \<and>
         fst (snd (handleSMS r env db)) =
           [[Lit ''[DB_SAVE_ERROR] '', Lit ''Failed to save SMS to database: '',
             ErrText err]] \<and>
         rows (db_after r env db) = rows db \<and>
         execs (db_after r env db) = Suc (execs db) \<and>
         faults (db_after r env db) = later"
proof -
  from assms(1) obtain messageSID fromNumber body
    where e: "extractFields r = Some (messageSID, fromNumber, body)"
      and c: "complete (messageSID, fromNumber, body)"
    by (rule validatedE)
  show ?thesis
    by (simp add: reply_def db_after_def handleSMS_complete [OF e c]
          saveSMS_failing [OF assms(2)] http_Error_def StatusInternalServerError_def
          logError_def)
qed

theorem handleSMS_persistence_failure_witness:
  "validated \<lparr>PostBody = ''MessageSid=SM123&From=%2B15551234567&Body=Hello''\<rparr> \<and>
   faults (emptyDB\<lparr>faults := [Some (DriverError ''connection refused''), None]\<rparr>) =
     Some (DriverError ''connection refused'') # [None] \<and>
   handleSMS \<lparr>PostBody = ''MessageSid=SM123&From=%2B15551234567&Body=Hello''\<rparr>
     \<lparr>clock = 1700000000, write_err = None\<rparr>
     (emptyDB\<lparr>faults := [Some (DriverError ''connection refused''), None]\<rparr>) =
     (\<lparr>status = 500,
       header = [(''Content-Type'', ''text/plain; charset=utf-8''),
                 (''X-Content-Type-Options'', ''nosniff'')],
       written = ''Failed to save message'' @ [CHR 0x0A]\<rparr>,
      [[Lit ''[DB_SAVE_ERROR] '', Lit ''Failed to save SMS to database: '',
        ErrText (DriverError ''connection refused'')]],
      \<lparr>rows = [], auto_increment = 1, execs = 1, faults = [None],
       passed = [\<lparr>sid_arg = ''SM123'', sender_arg = ''+15551234567'', text_arg = ''Hello'',
                  time_arg = \<lparr>instant = 1700000000, loc = Local\<rparr>\<rparr>]\<rparr>)"
  using handleSMS_persistence_failure
      [of "\<lparr>PostBody = ''MessageSid=SM123&From=%2B15551234567&Body=Hello''\<rparr>"
          "emptyDB\<lparr>faults := [Some (DriverError ''connection refused''), None]\<rparr>"
          "DriverError ''connection refused''" "[None]"
          "\<lparr>clock = 1700000000, write_err = None\<rparr>"]
  by (simp add: handleSMS_def handler_eval url_eval)

text \<open>
  \<^bold>\<open>C5.\<close> The timestamp of the record the handler constructs is said to be the current
  time in UTC. In \<open>handleSMS\<close> the field is \<^verbatim>\<open>time.Now()\<close> as it is, the local time: at a
  direct request the time handed to \<^verbatim>\<open>db.Exec\<close> has the location \<open>Local\<close>.
\<close>

theorem handleSMS_receivedAt_local:
  "map loc (map time_arg (passed (db_after
      \<lparr>PostBody = ''MessageSid=SM123&From=%2B15551234567&Body=Hello''\<rparr>
      \<lparr>clock = 1700000000, write_err = None\<rparr> emptyDB))) = [Local]"
  by (simp add: handleSMS_def handler_eval url_eval)

text \<open>
  \<^bold>\<open>C5\<close>, amended. For every request that passes validation, the timestamp of the record
  is the reading of the handler's clock at processing time, whatever the request holds.
  In \<open>handleSMS\<close> the field of the record is \<^verbatim>\<open>time.Now()\<close>, of location \<open>Local\<close>; only
  \<open>smsHandler\<close> converts its timestamp itself, with \<^verbatim>\<open>time.Now().UTC()\<close>. With either handler
  the row that is added, when the driver accepts the statement, holds that instant in
  UTC, by the driver's conversion.
\<close>

theorem receivedAt_from_clock:
  "(extractFields r = Some (messageSID, fromNumber, body) \<and>
      complete (messageSID, fromNumber, body) \<longrightarrow>
      passed (db_after r env db) = passed db @
        [\<lparr>sid_arg = messageSID, sender_arg = fromNumber, text_arg = body,
          time_arg = \<lparr>instant = clock env, loc = Local\<rparr>\<rparr>] \<and>
      (accepting db \<longrightarrow>
         map received_at (added db (db_after r env db)) =
           [\<lparr>instant = clock env, loc = UTC\<rparr>])) \<and>
   (smsFields r = Some (messageSID, fromNumber, body) \<and>
      complete (messageSID, fromNumber, body) \<and> \<not> oversized (messageSID, fromNumber, body) \<longrightarrow>
      passed (snd (smsHandler r env db)) = passed db @
        [\<lparr>sid_arg = messageSID, sender_arg = fromNumber, text_arg = body,
          time_arg = \<lparr>instant = clock env, loc = UTC\<rparr>\<rparr>] \<and>
      (accepting db \<longrightarrow>
         map received_at (added db (snd (smsHandler r env db))) =
           [\<lparr>instant = clock env, loc = UTC\<rparr>]))"
proof (intro conjI impI)
  assume a: "extractFields r = Some (messageSID, fromNumber, body) \<and>
      complete (messageSID, fromNumber, body)"
  then have e: "extractFields r = Some (messageSID, fromNumber, body)"
    and c: "complete (messageSID, fromNumber, body)"
    by simp_all
  show "passed (db_after r env db) = passed db @
        [\<lparr>sid_arg = messageSID, sender_arg = fromNumber, text_arg = body,
          time_arg = \<lparr>instant = clock env, loc = Local\<rparr>\<rparr>]"
  proof (cases "accepting db")
    case True
    then show ?thesis
      by (simp add: db_after_def handleSMS_complete [OF e c] saveSMS_accepting time_Now_def)
  next
    case False
    then obtain err later where f: "faults db = Some err # later"
      using not_accepting by blast
    show ?thesis
      by (simp add: db_after_def handleSMS_complete [OF e c] saveSMS_failing [OF f]
            time_Now_def)
  qed
  assume "accepting db"
  then show "map received_at (added db (db_after r env db)) =
           [\<lparr>instant = clock env, loc = UTC\<rparr>]"
    by (simp add: db_after_def handleSMS_complete [OF e c] saveSMS_accepting added_def
          time_Now_def Time_UTC_def)
next
  assume a: "smsFields r = Some (messageSID, fromNumber, body) \<and>
      complete (messageSID, fromNumber, body) \<and> \<not> oversized (messageSID, fromNumber, body)"
  then obtain PostForm where p: "ParseForm r = (PostForm, None)"
    by (auto simp: smsFields_def split: prod.splits option.splits)
  with a have d: "snd (smsHandler r env db) =
        fst (Exec_insert db messageSID fromNumber body \<lparr>instant = clock env, loc = UTC\<rparr>)"
    by (auto simp: smsHandler_def smsFields_def complete_def oversized_def Let_def
          time_Now_def Time_UTC_def split: prod.splits option.splits)
  show "passed (snd (smsHandler r env db)) = passed db @
        [\<lparr>sid_arg = messageSID, sender_arg = fromNumber, text_arg = body,
          time_arg = \<lparr>instant = clock env, loc = UTC\<rparr>\<rparr>]"
    by (simp add: d Exec_insert_def Let_def split: option.splits)
  assume "accepting db"
  then show "map received_at (added db (snd (smsHandler r env db))) =
           [\<lparr>instant = clock env, loc = UTC\<rparr>]"
    by (simp add: d Exec_insert_def accepting_def added_def Let_def Time_UTC_def
          split: list.splits)
qed

theorem receivedAt_from_clock_witness:
  "extractFields \<lparr>PostBody = ''MessageSid=SM123&From=%2B15551234567&Body=Hello''\<rparr> =
     Some (''SM123'', ''+15551234567'', ''Hello'') \<and>
   smsFields \<lparr>PostBody = ''MessageSid=SM123&From=%2B15551234567&Body=Hello''\<rparr> =
     Some (''SM123'', ''+15551234567'', ''Hello'') \<and>
   complete (''SM123'', ''+15551234567'', ''Hello'') \<and>
   \<not> oversized (''SM123'', ''+15551234567'', ''Hello'') \<and>
   accepting emptyDB \<and>
   db_after \<lparr>PostBody = ''MessageSid=SM123&From=%2B15551234567&Body=Hello''\<rparr>
      \<lparr>clock = 1700000000, write_err = None\<rparr> emptyDB =
     \<lparr>rows = [\<lparr>row_id = 1, message_sid = ''SM123'', from_number = ''+15551234567'',
                body_text = ''Hello'',
                received_at = \<lparr>instant = 1700000000, loc = UTC\<rparr>\<rparr>],
      auto_increment = 2, execs = 1, faults = [],
      passed = [\<lparr>sid_arg = ''SM123'', sender_arg = ''+15551234567'', text_arg = ''Hello'',
                 time_arg = \<lparr>instant = 1700000000, loc = Local\<rparr>\<rparr>]\<rparr> \<and>
   snd (smsHandler \<lparr>PostBody = ''MessageSid=SM123&From=%2B15551234567&Body=Hello''\<rparr>
      \<lparr>clock = 1700000000, write_err = None\<rparr> emptyDB) =
     \<lparr>rows = [\<lparr>row_id = 1, message_sid = ''SM123'', from_number = ''+15551234567'',
                body_text = ''Hello'',
                received_at = \<lparr>instant = 1700000000, loc = UTC\<rparr>\<rparr>],
      auto_increment = 2, execs = 1, faults = [],
      passed = [\<lparr>sid_arg = ''SM123'', sender_arg = ''+15551234567'', text_arg = ''Hello'',
                 time_arg = \<lparr>instant = 1700000000, loc = UTC\<rparr>\<rparr>]\<rparr>"
  using receivedAt_from_clock
      [of "\<lparr>PostBody = ''MessageSid=SM123&From=%2B15551234567&Body=Hello''\<rparr>"
          "''SM123''" "''+15551234567''" "''Hello''"
          "\<lparr>clock = 1700000000, write_err = None\<rparr>" emptyDB]
  by (simp add: handleSMS_def smsHandler_def handler_eval url_eval Let_def)

text \<open>
  \<^bold>\<open>C6.\<close> A request with a field over its maximum length is said to be answered 400 with
  no write. \<open>handleSMS\<close> has no such check: with a sender number of 16 bytes it executes
  the insert all the same, and answers 200 when the driver accepts the statement and 500
  when it refuses.
\<close>

theorem handleSMS_no_length_limit:
  "length ''+155512345678901'' = 16 \<and>
   status (reply \<lparr>PostBody = ''MessageSid=SM123&From=%2B155512345678901&Body=Hello''\<rparr>
     \<lparr>clock = 1700000000, write_err = None\<rparr> emptyDB) = 200 \<and>
   db_after \<lparr>PostBody = ''MessageSid=SM123&From=%2B155512345678901&Body=Hello''\<rparr>
     \<lparr>clock = 1700000000, write_err = None\<rparr> emptyDB =
     \<lparr>rows = [\<lparr>row_id = 1, message_sid = ''SM123'', from_number = ''+155512345678901'',
                body_text = ''Hello'',
                received_at = \<lparr>instant = 1700000000, loc = UTC\<rparr>\<rparr>],
      auto_increment = 2, execs = 1, faults = [],
      passed = [\<lparr>sid_arg = ''SM123'', sender_arg = ''+155512345678901'',
                 text_arg = ''Hello'',
                 time_arg = \<lparr>instant = 1700000000, loc = Local\<rparr>\<rparr>]\<rparr> \<and>
   status (reply \<lparr>PostBody = ''MessageSid=SM123&From=%2B155512345678901&Body=Hello''\<rparr>
     \<lparr>clock = 1700000000, write_err = None\<rparr>
     (emptyDB\<lparr>faults := [Some (DriverError ''Data too long for column'')]\<rparr>)) = 500 \<and>
   db_after \<lparr>PostBody = ''MessageSid=SM123&From=%2B155512345678901&Body=Hello''\<rparr>
     \<lparr>clock = 1700000000, write_err = None\<rparr>
     (emptyDB\<lparr>faults := [Some (DriverError ''Data too long for column'')]\<rparr>) =
     \<lparr>rows = [], auto_increment = 1, execs = 1, faults = [],
      passed = [\<lparr>sid_arg = ''SM123'', sender_arg = ''+155512345678901'',
                 text_arg = ''Hello'',
                 time_arg = \<lparr>instant = 1700000000, loc = Local\<rparr>\<rparr>]\<rparr>"
  by (simp add: handleSMS_def handler_eval url_eval)

text \<open>
  \<^bold>\<open>C6\<close>, amended. For every request whose form parses and in which a field, as
  \<open>smsHandler\<close> reads it, is longer than its limit in bytes (message identifier over 50,
  sender number over 15, body over 1600), \<open>smsHandler\<close> answers 400 and leaves the database
  as it was; the text is "Input length exceeded" when none of the three fields is empty.
  (A field over its limit in characters is over it in bytes.)
\<close>

theorem smsHandler_length_limits:
  assumes "smsFields r = Some triple" and "oversized triple"
  shows "status (fst (smsHandler r env db)) = 400 \<and>
         snd (smsHandler r env db) = db \<and>
         (complete triple \<longrightarrow>
            written (fst (smsHandler r env db)) = ''Input length exceeded'' @ [CHR 0x0A])"
proof -
  obtain PostForm where p: "ParseForm r = (PostForm, None)"
    using assms(1) by (auto simp: smsFields_def split: prod.splits option.splits)
  with assms show ?thesis
    by (auto simp: smsHandler_def smsFields_def complete_def oversized_def Let_def
          http_Error_def StatusBadRequest_def)
qed

theorem smsHandler_length_limits_witness:
  "smsFields \<lparr>PostBody = ''MessageSid=SM123&From=%2B155512345678901&Body=Hello''\<rparr> =
     Some (''SM123'', ''+155512345678901'', ''Hello'') \<and>
   oversized (''SM123'', ''+155512345678901'', ''Hello'') \<and>
   complete (''SM123'', ''+155512345678901'', ''Hello'') \<and>
   smsHandler \<lparr>PostBody = ''MessageSid=SM123&From=%2B155512345678901&Body=Hello''\<rparr>
     \<lparr>clock = 1700000000, write_err = None\<rparr> emptyDB =
     (http_Error ''Input length exceeded'' 400, emptyDB)"
  using smsHandler_length_limits
      [of "\<lparr>PostBody = ''MessageSid=SM123&From=%2B155512345678901&Body=Hello''\<rparr>"
          "(''SM123'', ''+155512345678901'', ''Hello'')"
          "\<lparr>clock = 1700000000, write_err = None\<rparr>" emptyDB]
  by (simp add: smsHandler_def handler_eval url_eval)

text \<open>
  \<^bold>\<open>C7.\<close> For every request whose form parses, with the three fields non-empty under the
  keys \<^verbatim>\<open>MessageSid\<close>, \<^verbatim>\<open>From\<close> and \<^verbatim>\<open>Body\<close>, and whose insert the driver accepts, the one row
  added holds exactly the three submitted values, and the response has status 200,
  content type \<^verbatim>\<open>application/xml\<close>, and as body the acknowledgment XML. The handler lays
  the XML out on four lines (the XML declaration, \<^verbatim>\<open><Response>\<close>, the \<^verbatim>\<open><Message>\<close> element
  indented by four spaces, \<^verbatim>\<open></Response>\<close>); brought to one line it is the literal of the
  specification, character by character.
\<close>

theorem handleSMS_primary_success:
  assumes "snd (ParseForm r) = None"
    and "PostFormValue (fst (ParseForm r)) ''MessageSid'' \<noteq> []"
    and "PostFormValue (fst (ParseForm r)) ''From'' \<noteq> []"
    and "PostFormValue (fst (ParseForm r)) ''Body'' \<noteq> []"
    and "accepting db"
  shows \<open>rows (db_after r env db) = rows db @
           [\<lparr>row_id = auto_increment db,
             message_sid = PostFormValue (fst (ParseForm r)) ''MessageSid'',
             from_number = PostFormValue (fst (ParseForm r)) ''From'',
             body_text = PostFormValue (fst (ParseForm r)) ''Body'',
             received_at = \<lparr>instant = clock env, loc = UTC\<rparr>\<rparr>] \<and>
         status (reply r env db) = 200 \<and>
         header (reply r env db) = [(''Content-Type'', ''application/xml'')] \<and>
         written (reply r env db) =
           ''<?xml version="1.0" encoding="UTF-8"?>'' @ [CHR 0x0A] @
           ''<Response>'' @ [CHR 0x0A] @
           ''    <Message>Message received! Thank you.</Message>'' @ [CHR 0x0A] @
           ''</Response>'' \<and>
         one_line (written (reply r env db)) =
           ''<?xml version="1.0" encoding="UTF-8"?><Response><Message>Message received! Thank you.</Message></Response>''\<close>
proof -
  obtain PostForm where p: "ParseForm r = (PostForm, None)"
    using assms(1) by (cases "ParseForm r") simp
  let ?t = "(PostFormValue PostForm ''MessageSid'', PostFormValue PostForm ''From'',
             PostFormValue PostForm ''Body'')"
  have d: "directFields PostForm = ?t"
    using assms(2-4) p by (simp add: directFields_def Let_def)
  have c: "complete ?t"
    using assms(2-4) p by (simp add: complete_def)
  have e: "extractFields r = Some ?t"
    using p by (simp add: extractFields_def d fallbackFields_complete [OF c])
  have o: \<open>one_line twimlResponse =
      ''<?xml version="1.0" encoding="UTF-8"?><Response><Message>Message received! Thank you.</Message></Response>''\<close>
    by (simp add: one_line_def twimlResponse_def)
  have w: "reply r env db =
      \<lparr>status = StatusOK, header = [(''Content-Type'', ''application/xml'')],
       written = twimlResponse\<rparr>"
    by (simp add: reply_def handleSMS_complete [OF e c] saveSMS_accepting [OF assms(5)])
  have "rows (db_after r env db) = rows db @
           [\<lparr>row_id = auto_increment db,
             message_sid = PostFormValue (fst (ParseForm r)) ''MessageSid'',
             from_number = PostFormValue (fst (ParseForm r)) ''From'',
             body_text = PostFormValue (fst (ParseForm r)) ''Body'',
             received_at = \<lparr>instant = clock env, loc = UTC\<rparr>\<rparr>]"
    using p
    by (simp add: db_after_def handleSMS_complete [OF e c] saveSMS_accepting [OF assms(5)]
          time_Now_def Time_UTC_def)
  moreover have \<open>written (reply r env db) =
           ''<?xml version="1.0" encoding="UTF-8"?>'' @ [CHR 0x0A] @
           ''<Response>'' @ [CHR 0x0A] @
           ''    <Message>Message received! Thank you.</Message>'' @ [CHR 0x0A] @
           ''</Response>''\<close>
    by (simp add: w twimlResponse_def)
  moreover have \<open>one_line (written (reply r env db)) =
      ''<?xml version="1.0" encoding="UTF-8"?><Response><Message>Message received! Thank you.</Message></Response>''\<close>
    by (simp add: w o)
  ultimately show ?thesis
    by (simp add: w StatusOK_def)
qed

theorem handleSMS_primary_success_witness:
  \<open>snd (ParseForm \<lparr>PostBody = ''MessageSid=SM123&From=%2B15551234567&Body=Hello''\<rparr>) = None \<and>
   PostFormValue (fst (ParseForm
      \<lparr>PostBody = ''MessageSid=SM123&From=%2B15551234567&Body=Hello''\<rparr>)) ''MessageSid'' =
     ''SM123'' \<and>
   PostFormValue (fst (ParseForm
      \<lparr>PostBody = ''MessageSid=SM123&From=%2B15551234567&Body=Hello''\<rparr>)) ''From'' =
     ''+15551234567'' \<and>
   PostFormValue (fst (ParseForm
      \<lparr>PostBody = ''MessageSid=SM123&From=%2B15551234567&Body=Hello''\<rparr>)) ''Body'' =
     ''Hello'' \<and>
   accepting emptyDB \<and>
   rows (db_after \<lparr>PostBody = ''MessageSid=SM123&From=%2B15551234567&Body=Hello''\<rparr>
      \<lparr>clock = 1700000000, write_err = None\<rparr> emptyDB) =
     [\<lparr>row_id = 1, message_sid = ''SM123'', from_number = ''+15551234567'',
       body_text = ''Hello'', received_at = \<lparr>instant = 1700000000, loc = UTC\<rparr>\<rparr>] \<and>
   reply \<lparr>PostBody = ''MessageSid=SM123&From=%2B15551234567&Body=Hello''\<rparr>
      \<lparr>clock = 1700000000, write_err = None\<rparr> emptyDB =
     \<lparr>status = 200, header = [(''Content-Type'', ''application/xml'')],
      written =
        ''<?xml version="1.0" encoding="UTF-8"?>'' @ [CHR 0x0A] @
        ''<Response>'' @ [CHR 0x0A] @
        ''    <Message>Message received! Thank you.</Message>'' @ [CHR 0x0A] @
        ''</Response>''\<rparr> \<and>
   one_line (written (reply \<lparr>PostBody = ''MessageSid=SM123&From=%2B15551234567&Body=Hello''\<rparr>
      \<lparr>clock = 1700000000, write_err = None\<rparr> emptyDB)) =
     ''<?xml version="1.0" encoding="UTF-8"?><Response><Message>Message received! Thank you.</Message></Response>''\<close>
  using handleSMS_primary_success
      [of "\<lparr>PostBody = ''MessageSid=SM123&From=%2B15551234567&Body=Hello''\<rparr>" emptyDB
          "\<lparr>clock = 1700000000, write_err = None\<rparr>"]
  by (simp add: handleSMS_def handler_eval url_eval twimlResponse_def)

text \<open>
  \<^bold>\<open>C8.\<close> Persistence is not idempotent. For any two requests that pass validation,
  handled one after the other with both inserts accepted, the table grows by two rows
  with different identifiers, each holding the fields of its request, whatever the table
  held before and whatever the message identifiers are: the insert looks nothing up. Two
  requests with the same \<^verbatim>\<open>MessageSid\<close>, or the same request twice, give two rows.
\<close>

theorem handleSMS_not_idempotent:
  assumes "validated r1" and "validated r2"
    and "accepting db" and "accepting (db_after r1 env1 db)"
  shows "\<exists>row1 row2.
           rows (db_after r2 env2 (db_after r1 env1 db)) = rows db @ [row1, row2] \<and>
           row_id row1 \<noteq> row_id row2 \<and>
           extractFields r1 = Some (stored row1) \<and>
           extractFields r2 = Some (stored row2) \<and>
           execs (db_after r2 env2 (db_after r1 env1 db)) = execs db + 2"
proof -
  from assms(1) obtain s1 f1 b1
    where e1: "extractFields r1 = Some (s1, f1, b1)" and c1: "complete (s1, f1, b1)"
    by (rule validatedE)
  from assms(2) obtain s2 f2 b2
    where e2: "extractFields r2 = Some (s2, f2, b2)" and c2: "complete (s2, f2, b2)"
    by (rule validatedE)
  let ?db1 = "db_after r1 env1 db"
  let ?row1 = "\<lparr>row_id = auto_increment db, message_sid = s1, from_number = f1,
                body_text = b1, received_at = Time_UTC (time_Now env1)\<rparr>"
  let ?row2 = "\<lparr>row_id = Suc (auto_increment db), message_sid = s2, from_number = f2,
                body_text = b2, received_at = Time_UTC (time_Now env2)\<rparr>"
  have r1: "rows ?db1 = rows db @ [?row1]"
    and a1: "auto_increment ?db1 = Suc (auto_increment db)"
    and x1: "execs ?db1 = Suc (execs db)"
    by (simp_all add: db_after_def handleSMS_complete [OF e1 c1]
          saveSMS_accepting [OF assms(3)])
  have "rows (db_after r2 env2 ?db1) = rows ?db1 @
      [\<lparr>row_id = auto_increment ?db1, message_sid = s2, from_number = f2,
        body_text = b2, received_at = Time_UTC (time_Now env2)\<rparr>]"
    and "execs (db_after r2 env2 ?db1) = Suc (execs ?db1)"
    by (simp_all add: db_after_def [of r2] handleSMS_complete [OF e2 c2]
          saveSMS_accepting [OF assms(4)])
  then have "rows (db_after r2 env2 ?db1) = rows db @ [?row1, ?row2]"
    and "execs (db_after r2 env2 ?db1) = execs db + 2"
    by (simp_all add: r1 a1 x1)
  with e1 e2 show ?thesis
    by (intro exI [of _ ?row1] exI [of _ ?row2]) (simp add: stored_def)
qed

theorem handleSMS_not_idempotent_witness:
  "validated \<lparr>PostBody = ''MessageSid=SM123&From=%2B15551234567&Body=Hello''\<rparr> \<and>
   accepting emptyDB \<and>
   accepting (db_after \<lparr>PostBody = ''MessageSid=SM123&From=%2B15551234567&Body=Hello''\<rparr>
      \<lparr>clock = 1700000000, write_err = None\<rparr> emptyDB) \<and>
   rows (db_after \<lparr>PostBody = ''MessageSid=SM123&From=%2B15551234567&Body=Hello''\<rparr>
      \<lparr>clock = 1700000060, write_err = None\<rparr>
      (db_after \<lparr>PostBody = ''MessageSid=SM123&From=%2B15551234567&Body=Hello''\<rparr>
         \<lparr>clock = 1700000000, write_err = None\<rparr> emptyDB)) =
     [\<lparr>row_id = 1, message_sid = ''SM123'', from_number = ''+15551234567'',
       body_text = ''Hello'', received_at = \<lparr>instant = 1700000000, loc = UTC\<rparr>\<rparr>,
      \<lparr>row_id = 2, message_sid = ''SM123'', from_number = ''+15551234567'',
       body_text = ''Hello'', received_at = \<lparr>instant = 1700000060, loc = UTC\<rparr>\<rparr>]"
  using handleSMS_not_idempotent
      [of "\<lparr>PostBody = ''MessageSid=SM123&From=%2B15551234567&Body=Hello''\<rparr>"
          "\<lparr>PostBody = ''MessageSid=SM123&From=%2B15551234567&Body=Hello''\<rparr>"
          emptyDB "\<lparr>clock = 1700000000, write_err = None\<rparr>"
          "\<lparr>clock = 1700000060, write_err = None\<rparr>"]
  by (simp add: handleSMS_def handler_eval url_eval)

text \<open>
  \<^bold>\<open>C9.\<close> The fallback reads the nested payload from the lower-case form field \<^verbatim>\<open>body\<close>
  only. For every request whose form parses, whose field \<^verbatim>\<open>body\<close> is empty or absent and
  in which a required field is empty after the direct pass, the fallback leaves the
  fields as they are, nothing being parsed again (also when the upper-case \<^verbatim>\<open>Body\<close> holds
  a nested query string), and the handler answers 400 for missing fields and leaves the
  database as it was.
\<close>

theorem fallback_only_from_lowercase_body:
  assumes "snd (ParseForm r) = None"
    and "PostFormValue (fst (ParseForm r)) ''body'' = []"
    and "directFields (fst (ParseForm r)) = (messageSID, fromNumber, body)"
    and "messageSID = [] \<or> fromNumber = [] \<or> body = []"
  shows "fallbackFields (fst (ParseForm r)) (directFields (fst (ParseForm r))) =
           Inr (directFields (fst (ParseForm r))) \<and>
         handleSMS r env db =
           (http_Error ''Missing required fields'' StatusBadRequest,
            [logError ''WEBHOOK_NO_INPUT''
               [Lit (''Missing required fields: MessageSid='' @ messageSID @
                     '', From='' @ fromNumber @ '', Body='' @ body)]],
            db) \<and>
         status (reply r env db) = 400"
proof -
  obtain PostForm where p: "ParseForm r = (PostForm, None)"
    using assms(1) by (cases "ParseForm r") simp
  have f: "fallbackFields PostForm (directFields PostForm) = Inr (directFields PostForm)"
    using assms(2) p by (simp add: fallbackFields_def Let_def split: prod.splits)
  have d: "fallbackFields PostForm (directFields PostForm) =
      Inr (messageSID, fromNumber, body)"
    using assms(3) p f by simp
  have "handleSMS r env db =
           (http_Error ''Missing required fields'' StatusBadRequest,
            [logError ''WEBHOOK_NO_INPUT''
               [Lit (''Missing required fields: MessageSid='' @ messageSID @
                     '', From='' @ fromNumber @ '', Body='' @ body)]],
            db)"
    using assms(4) by (simp add: handleSMS_def p d)
  with f p show ?thesis
    by (simp add: reply_def http_Error_def StatusBadRequest_def)
qed

theorem fallback_only_from_lowercase_body_witness:
  "snd (ParseForm \<lparr>PostBody = ''Body=MessageSid%3DSM9%26From%3D1555%26Body%3DHi''\<rparr>) = None \<and>
   PostFormValue (fst (ParseForm
      \<lparr>PostBody = ''Body=MessageSid%3DSM9%26From%3D1555%26Body%3DHi''\<rparr>)) ''body'' = [] \<and>
   directFields (fst (ParseForm
      \<lparr>PostBody = ''Body=MessageSid%3DSM9%26From%3D1555%26Body%3DHi''\<rparr>)) =
     ([], [], ''MessageSid=SM9&From=1555&Body=Hi'') \<and>
   handleSMS \<lparr>PostBody = ''Body=MessageSid%3DSM9%26From%3D1555%26Body%3DHi''\<rparr>
      \<lparr>clock = 1700000000, write_err = None\<rparr> emptyDB =
     (http_Error ''Missing required fields'' StatusBadRequest,
      [[Lit ''[WEBHOOK_NO_INPUT] '',
        Lit ''Missing required fields: MessageSid=, From=, Body=MessageSid=SM9&From=1555&Body=Hi'']],
      emptyDB) \<and>
   status (reply \<lparr>PostBody = ''Body=MessageSid%3DSM9%26From%3D1555%26Body%3DHi''\<rparr>
      \<lparr>clock = 1700000000, write_err = None\<rparr> emptyDB) = 400"
  using fallback_only_from_lowercase_body
      [of "\<lparr>PostBody = ''Body=MessageSid%3DSM9%26From%3D1555%26Body%3DHi''\<rparr>"
          "[]" "[]" "''MessageSid=SM9&From=1555&Body=Hi''"
          "\<lparr>clock = 1700000000, write_err = None\<rparr>" emptyDB]
  by (simp add: handler_eval url_eval)

text \<open>
  \<^bold>\<open>C10.\<close> The outcome of the handler is a function of the form body and of whether the
  driver accepts the insert. For any two runs on the same request, with any two clocks,
  any two outcomes of writing the response and any two databases that both accept or
  both refuse the next statement, the responses are equal (status, headers and body),
  and the rows added hold the same message identifier, sender number and body text; the
  timestamps may differ.
\<close>

theorem handleSMS_deterministic:
  assumes "accepting db1 = accepting db2"
  shows "reply r env1 db1 = reply r env2 db2 \<and>
         map stored (added db1 (db_after r env1 db1)) =
         map stored (added db2 (db_after r env2 db2))"
proof (cases "validated r")
  case False
  then show ?thesis
    by (simp add: handleSMS_rejected(1) handleSMS_rejected(2) [of r env1 db1 env2 db2]
          added_def)
next
  case True
  then obtain messageSID fromNumber body
    where e: "extractFields r = Some (messageSID, fromNumber, body)"
      and c: "complete (messageSID, fromNumber, body)"
    by (rule validatedE)
  show ?thesis
  proof (cases "accepting db1")
    case True
    with assms have "accepting db2" by simp
    with True show ?thesis
      by (simp add: reply_def db_after_def handleSMS_complete [OF e c] saveSMS_accepting
            added_def stored_def)
  next
    case False
    with assms have f2: "\<not> accepting db2" by simp
    from False obtain e1 l1 where 1: "faults db1 = Some e1 # l1"
      using not_accepting by blast
    from f2 obtain e2 l2 where 2: "faults db2 = Some e2 # l2"
      using not_accepting by blast
    show ?thesis
      by (simp add: reply_def db_after_def handleSMS_complete [OF e c]
            saveSMS_failing [OF 1] saveSMS_failing [OF 2] added_def)
  qed
qed

theorem handleSMS_deterministic_witness:
  "accepting emptyDB =
     accepting \<lparr>rows = [\<lparr>row_id = 1, message_sid = ''SM123'', from_number = ''+1'',
                           body_text = ''old'', received_at = \<lparr>instant = 5, loc = UTC\<rparr>\<rparr>],
                auto_increment = 2, execs = 1, faults = [None], passed = []\<rparr> \<and>
   reply \<lparr>PostBody = ''MessageSid=SM123&From=%2B15551234567&Body=Hello''\<rparr>
      \<lparr>clock = 1700000000, write_err = None\<rparr> emptyDB =
   reply \<lparr>PostBody = ''MessageSid=SM123&From=%2B15551234567&Body=Hello''\<rparr>
      \<lparr>clock = 1700000060, write_err = Some (DriverError ''broken pipe'')\<rparr>
      \<lparr>rows = [\<lparr>row_id = 1, message_sid = ''SM123'', from_number = ''+1'',
                 body_text = ''old'', received_at = \<lparr>instant = 5, loc = UTC\<rparr>\<rparr>],
        auto_increment = 2, execs = 1, faults = [None], passed = []\<rparr> \<and>
   map stored (added emptyDB
      (db_after \<lparr>PostBody = ''MessageSid=SM123&From=%2B15551234567&Body=Hello''\<rparr>
         \<lparr>clock = 1700000000, write_err = None\<rparr> emptyDB)) =
     [(''SM123'', ''+15551234567'', ''Hello'')] \<and>
   map stored (added
      \<lparr>rows = [\<lparr>row_id = 1, message_sid = ''SM123'', from_number = ''+1'',
                 body_text = ''old'', received_at = \<lparr>instant = 5, loc = UTC\<rparr>\<rparr>],
        auto_increment = 2, execs = 1, faults = [None], passed = []\<rparr>
      (db_after \<lparr>PostBody = ''MessageSid=SM123&From=%2B15551234567&Body=Hello''\<rparr>
         \<lparr>clock = 1700000060, write_err = Some (DriverError ''broken pipe'')\<rparr>
         \<lparr>rows = [\<lparr>row_id = 1, message_sid = ''SM123'', from_number = ''+1'',
                    body_text = ''old'', received_at = \<lparr>instant = 5, loc = UTC\<rparr>\<rparr>],
           auto_increment = 2, execs = 1, faults = [None], passed = []\<rparr>)) =
     [(''SM123'', ''+15551234567'', ''Hello'')]"
  using handleSMS_deterministic
      [of emptyDB
          "\<lparr>rows = [\<lparr>row_id = 1, message_sid = ''SM123'', from_number = ''+1'',
                     body_text = ''old'', received_at = \<lparr>instant = 5, loc = UTC\<rparr>\<rparr>],
            auto_increment = 2, execs = 1, faults = [None], passed = []\<rparr>"
          "\<lparr>PostBody = ''MessageSid=SM123&From=%2B15551234567&Body=Hello''\<rparr>"
          "\<lparr>clock = 1700000000, write_err = None\<rparr>"
          "\<lparr>clock = 1700000060, write_err = Some (DriverError ''broken pipe'')\<rparr>"]
  by (simp add: handleSMS_def handler_eval url_eval)

end
